theory Spec2Isabelle
  imports Main
begin

section \<open>JavaScript values and strings\<close>

text \<open>
  A JavaScript string is held as the list of its UTF-8 bytes. Every string the tool
  handles is decoded from UTF-8 (environment variables, command-line arguments, the
  output of a subprocess), so it is well formed, and on well-formed strings
  \<open>encodeURIComponent\<close> works byte by byte on the UTF-8 encoding.

  \<open>JNative n\<close> is the built-in function object named \<open>n\<close> and \<open>JObjectPrototype\<close>
  is \<open>Object.prototype\<close>: an object literal inherits them, so a property read on
  an object literal can return them.
\<close>

datatype jsval = JUndefined | JNull | JStr string | JNative string | JObjectPrototype

fun ToString :: "jsval \<Rightarrow> string" where
  "ToString JUndefined = ''undefined''"
| "ToString JNull = ''null''"
| "ToString (JStr s) = s"
| "ToString (JNative n) = ''function '' @ n @ ''() { [native code] }''"
| "ToString JObjectPrototype = ''[object Object]''"

fun truthy :: "jsval \<Rightarrow> bool" where
  "truthy JUndefined = False"
| "truthy JNull = False"
| "truthy (JStr s) = (s \<noteq> [])"
| "truthy (JNative n) = True"
| "truthy JObjectPrototype = True"

text \<open>What is thrown: a string (\<open>throw("...")\<close>) or an error object of a library,
  with its \<open>status\<close> property (absent unless the error is an HTTP response) and its
  message.\<close>

datatype js_error = ThrownString string | ErrorObject "nat option" string

fun error_status :: "js_error \<Rightarrow> nat option" where
  "error_status (ThrownString s) = None"
| "error_status (ErrorObject st m) = st"

subsection \<open>Objects\<close>

text \<open>An object is the list of its own properties in insertion order. A property read
  looks at the own properties, then at \<open>Object.prototype\<close>, and is \<open>undefined\<close>
  otherwise; the key is converted to a string.\<close>

type_synonym obj = "(string \<times> jsval) list"

definition Object_prototype :: obj where
  "Object_prototype =
     [(''constructor'', JNative ''Object''),
      (''__defineGetter__'', JNative ''__defineGetter__''),
      (''__defineSetter__'', JNative ''__defineSetter__''),
      (''hasOwnProperty'', JNative ''hasOwnProperty''),
      (''__lookupGetter__'', JNative ''__lookupGetter__''),
      (''__lookupSetter__'', JNative ''__lookupSetter__''),
      (''isPrototypeOf'', JNative ''isPrototypeOf''),
      (''propertyIsEnumerable'', JNative ''propertyIsEnumerable''),
      (''toString'', JNative ''toString''),
      (''valueOf'', JNative ''valueOf''),
      (''__proto__'', JObjectPrototype),
      (''toLocaleString'', JNative ''toLocaleString'')]"

definition get_property :: "obj \<Rightarrow> jsval \<Rightarrow> jsval" where
  "get_property ob k =
     (case map_of ob (ToString k) of
        Some v \<Rightarrow> v
      | None \<Rightarrow>
          (case map_of Object_prototype (ToString k) of
             Some v \<Rightarrow> v
           | None \<Rightarrow> JUndefined))"

fun set_property :: "obj \<Rightarrow> string \<Rightarrow> jsval \<Rightarrow> obj" where
  "set_property [] k v = [(k, v)]"
| "set_property (p # ps) k v = (if fst p = k then (k, v) # ps else p # set_property ps k v)"

subsection \<open>String operations\<close>

text \<open>\<open>String.prototype.trim\<close> removes white space and line terminators at both ends:
  U+0009 to U+000D and U+0020 (one byte), U+00A0 (two bytes), U+1680, U+2000 to
  U+200A, U+2028, U+2029, U+202F, U+205F, U+3000 and U+FEFF (three bytes).\<close>

definition is_ws1 :: "char \<Rightarrow> bool" where
  "is_ws1 a = (a \<in> set [CHR 0x09, CHR 0x0A, CHR 0x0B, CHR 0x0C, CHR 0x0D, CHR 0x20])"

definition is_ws2 :: "char \<Rightarrow> char \<Rightarrow> bool" where
  "is_ws2 a b = (a = CHR 0xC2 \<and> b = CHR 0xA0)"

definition is_ws3 :: "char \<Rightarrow> char \<Rightarrow> char \<Rightarrow> bool" where
  "is_ws3 a b c =
     ((a = CHR 0xE1 \<and> b = CHR 0x9A \<and> c = CHR 0x80) \<or>
      (a = CHR 0xE2 \<and> b = CHR 0x80 \<and>
         ((0x80 \<le> (of_char c :: nat) \<and> (of_char c :: nat) \<le> 0x8A) \<or>
          c = CHR 0xA8 \<or> c = CHR 0xA9 \<or> c = CHR 0xAF)) \<or>
      (a = CHR 0xE2 \<and> b = CHR 0x81 \<and> c = CHR 0x9F) \<or>
      (a = CHR 0xE3 \<and> b = CHR 0x80 \<and> c = CHR 0x80) \<or>
      (a = CHR 0xEF \<and> b = CHR 0xBB \<and> c = CHR 0xBF))"

fun trimStart :: "string \<Rightarrow> string" where
  "trimStart (a # b # c # s) =
     (if is_ws1 a then trimStart (b # c # s)
      else if is_ws2 a b then trimStart (c # s)
      else if is_ws3 a b c then trimStart s
      else a # b # c # s)"
| "trimStart [a, b] =
     (if is_ws1 a then trimStart [b]
      else if is_ws2 a b then []
      else [a, b])"
| "trimStart [a] = (if is_ws1 a then [] else [a])"
| "trimStart [] = []"

text \<open>The same scan from the end, on the reversed string: its bytes come last first.\<close>

fun trimEnd_rev :: "string \<Rightarrow> string" where
  "trimEnd_rev (c # b # a # s) =
     (if is_ws1 c then trimEnd_rev (b # a # s)
      else if is_ws2 b c then trimEnd_rev (a # s)
      else if is_ws3 a b c then trimEnd_rev s
      else c # b # a # s)"
| "trimEnd_rev [c, b] =
     (if is_ws1 c then trimEnd_rev [b]
      else if is_ws2 b c then []
      else [c, b])"
| "trimEnd_rev [c] = (if is_ws1 c then [] else [c])"
| "trimEnd_rev [] = []"

definition trim :: "string \<Rightarrow> string" where
  "trim s = rev (trimEnd_rev (rev (trimStart s)))"

text \<open>\<open>.replace(/^"/, "")\<close> and \<open>.replace(/"$/, "")\<close>: one double quote at the
  start, then one at the end of what is left.\<close>

fun strip_leading_quote :: "string \<Rightarrow> string" where
  "strip_leading_quote [] = []"
| "strip_leading_quote (c # s) = (if c = CHR 0x22 then s else c # s)"

definition strip_trailing_quote :: "string \<Rightarrow> string" where
  "strip_trailing_quote s = (if s \<noteq> [] \<and> last s = CHR 0x22 then butlast s else s)"

text \<open>\<open>encodeURIComponent\<close>: the argument is converted to a string; the unreserved
  characters stay, every other byte becomes \<open>%XX\<close> in upper-case hexadecimal.\<close>

definition uri_unreserved :: "char \<Rightarrow> bool" where
  "uri_unreserved c =
     (c \<in> set (''ABCDEFGHIJKLMNOPQRSTUVWXYZabcdefghijklmnopqrstuvwxyz0123456789-_.!~*()''
               @ [CHR 0x27]))"

definition hex_digit :: "nat \<Rightarrow> char" where
  "hex_digit n = ''0123456789ABCDEF'' ! (n mod 16)"

definition percent_encode :: "char \<Rightarrow> string" where
  "percent_encode c =
     (if uri_unreserved c then [c]
      else [CHR ''%'', hex_digit (of_char c div 16), hex_digit (of_char c mod 16)])"

definition encodeURIComponent :: "jsval \<Rightarrow> string" where
  "encodeURIComponent v = concat (map percent_encode (ToString v))"

text \<open>\<open>Array.prototype.join\<close>: \<open>undefined\<close> and \<open>null\<close> elements give the empty
  string, every other element its string.\<close>

fun join_element :: "jsval \<Rightarrow> string" where
  "join_element JUndefined = []"
| "join_element JNull = []"
| "join_element v = ToString v"

fun join_strings :: "string \<Rightarrow> string list \<Rightarrow> string" where
  "join_strings sep [] = []"
| "join_strings sep [x] = x"
| "join_strings sep (x # y # ys) = x @ sep @ join_strings sep (y # ys)"

definition Array_join :: "string \<Rightarrow> jsval list \<Rightarrow> string" where
  "Array_join sep xs = join_strings sep (map join_element xs)"

section \<open>The world outside the program\<close>

text \<open>
  Everything the tool reads from outside is a field of \<open>world\<close>:
  \<^item> \<open>env\<close>: \<open>process.env\<close>;
  \<^item> \<open>execSync\<close>: the outcome of running a command, given by its argument vector (the
    vector that the shell-escaped command line denotes); \<open>None\<close> when \<open>execSync\<close>
    throws (the command cannot be run or exits with a failure), otherwise its
    decoded output;
  \<^item> \<open>statSync\<close>: \<open>fs.statSync\<close>; \<open>Inl e\<close> when it throws \<open>e\<close>, otherwise
    what \<open>isDirectory()\<close> returns;
  \<^item> \<open>tmpNameSync\<close>: \<open>tmp.tmpNameSync()\<close>, which throws or returns a file name;
  \<^item> \<open>stream_events\<close>: the \<open>error\<close> events of the archive and the \<open>finish\<close> and
    \<open>error\<close> events of the write stream, in the order they fire;
  \<^item> \<open>request_events\<close>: what the request emits, in the order it does: its progress
    events, and its end, a response or a failure. A progress event can come after
    the end.
\<close>

datatype 'a promise = Pending | Fulfilled 'a | Rejected js_error

datatype stream_event = ArchiveError js_error | OutputFinish | OutputError js_error

record progress_event =
  loaded :: int
  total :: int

datatype request_event = Progress progress_event | Responded string | Failed js_error

record world =
  env :: "string \<rightharpoonup> string"
  execSync :: "string list \<Rightarrow> string option"
  statSync :: "jsval \<Rightarrow> js_error + bool"
  tmpNameSync :: "js_error + string"
  stream_events :: "stream_event list"
  request_events :: "request_event list"

record request =
  url :: string
  content_type :: string
  headers :: "(string \<times> jsval) list"
  form_fields :: "(string \<times> jsval) list"
  attachments :: "(string \<times> string) list"

text \<open>What the program does to the outside, in order.\<close>

datatype event =
    ConsoleLog string
  | ConsoleLogBody string
  | ConsoleLogError js_error
  | ConsoleError string
  | ExecSync "string list"
  | CreateWriteStream string
  | ArchiveDirectory jsval
  | HttpPost request
  | NewProgressBar int
  | BarTick int
  | UncaughtException js_error

definition process_env :: "world \<Rightarrow> string \<Rightarrow> jsval" where
  "process_env w k = (case env w k of None \<Rightarrow> JUndefined | Some v \<Rightarrow> JStr v)"

section \<open>Revision resolution\<close>

record RevisionInfo =
  sha :: jsval
  reftype :: jsval
  ref :: jsval

definition getCiInfo :: "world \<Rightarrow> RevisionInfo" where
  "getCiInfo w =
     (if truthy (process_env w ''CI_BUILD_TAG'')
      then \<lparr>sha = process_env w ''CI_BUILD_REF'', reftype = JStr ''tag'',
            ref = process_env w ''CI_BUILD_TAG''\<rparr>
      else \<lparr>sha = process_env w ''CI_BUILD_REF'', reftype = JStr ''branch'',
            ref = process_env w ''CI_BUILD_REF_NAME''\<rparr>)"

definition git :: "world \<Rightarrow> string list \<Rightarrow> jsval \<times> event list" where
  "git w args =
     (let command = ''git'' # args in
      (case execSync w command of
         None \<Rightarrow> JNull
       | Some out \<Rightarrow> JStr (strip_trailing_quote (strip_leading_quote (trim out))),
       [ExecSync command]))"

definition format_arg :: string where
  "format_arg = ''--format=format:'' @ [CHR 0x22] @ ''%H'' @ [CHR 0x22]"

definition getGitInfo :: "world \<Rightarrow> string \<Rightarrow> RevisionInfo \<times> event list" where
  "getGitInfo w revision =
     (let (s, t1) = git w [''show'', format_arg, ''-s'', revision];
          (tag, t2) = git w [''describe'', ''--tags'', ''--exact-match'', revision]
      in if truthy tag
         then (\<lparr>sha = s, reftype = JStr ''tag'', ref = tag\<rparr>, t1 @ t2)
         else
           (let (branch, t3) = git w [''rev-parse'', ''--abbrev-ref'', revision]
            in if truthy branch
               then (\<lparr>sha = s, reftype = JStr ''branch'', ref = branch\<rparr>, t1 @ t2 @ t3)
               else (\<lparr>sha = s, reftype = JNull, ref = branch\<rparr>, t1 @ t2 @ t3)))"

definition gitInfo :: "world \<Rightarrow> RevisionInfo \<times> event list" where
  "gitInfo w =
     (if truthy (process_env w ''CI'') then (getCiInfo w, []) else getGitInfo w ''HEAD'')"

section \<open>The upload URL\<close>

definition reftypeToUrlMap :: obj where
  "reftypeToUrlMap = [(''branch'', JStr ''branches''), (''tag'', JStr ''tags'')]"

definition neither_tag_nor_branch :: js_error where
  "neither_tag_nor_branch = ThrownString ''Current project is neither on a tag nor a branch''"

definition sneakpeekUrl :: "jsval \<Rightarrow> jsval \<Rightarrow> RevisionInfo \<Rightarrow> js_error + string" where
  "sneakpeekUrl base project g =
     (let url = [base, JStr ''projects'', JStr (encodeURIComponent project)];
          plural = get_property reftypeToUrlMap (reftype g)
      in if \<not> truthy plural then Inl neither_tag_nor_branch
         else Inr (Array_join ''/'' (url @ [plural] @ [JStr (encodeURIComponent (ref g))])))"

section \<open>Promises\<close>

text \<open>A promise is looked at once the run is over: still pending, fulfilled or
  rejected. It settles once; a later \<open>resolve\<close> or \<open>reject\<close> changes nothing.
  A callback throws (\<open>Inl\<close>) or returns a promise (a plain value \<open>v\<close> is
  \<open>Fulfilled v\<close>), and does things to the outside meanwhile.\<close>

definition resolve :: "'a promise \<Rightarrow> 'a \<Rightarrow> 'a promise" where
  "resolve p v = (case p of Pending \<Rightarrow> Fulfilled v | _ \<Rightarrow> p)"

definition reject :: "'a promise \<Rightarrow> js_error \<Rightarrow> 'a promise" where
  "reject p e = (case p of Pending \<Rightarrow> Rejected e | _ \<Rightarrow> p)"

definition promise_then ::
  "'a promise \<Rightarrow> ('a \<Rightarrow> (js_error + 'b promise) \<times> event list) \<Rightarrow> 'b promise \<times> event list" where
  "promise_then p f =
     (case p of
        Pending \<Rightarrow> (Pending, [])
      | Rejected e \<Rightarrow> (Rejected e, [])
      | Fulfilled v \<Rightarrow>
          (case f v of
             (Inl e, t) \<Rightarrow> (Rejected e, t)
           | (Inr q, t) \<Rightarrow> (q, t)))"

definition promise_catch ::
  "'a promise \<Rightarrow> (js_error \<Rightarrow> (js_error + 'a promise) \<times> event list) \<Rightarrow> 'a promise \<times> event list" where
  "promise_catch p f =
     (case p of
        Pending \<Rightarrow> (Pending, [])
      | Fulfilled v \<Rightarrow> (Fulfilled v, [])
      | Rejected e \<Rightarrow>
          (case f e of
             (Inl e', t) \<Rightarrow> (Rejected e', t)
           | (Inr q, t) \<Rightarrow> (q, t)))"

section \<open>The archiver\<close>

text \<open>\<open>zip\<close> listens to the \<open>error\<close> event of the archive, which rejects the promise,
  and to the \<open>finish\<close> event of the write stream, which resolves it and is the last
  event followed: the archive is written. It registers no listener for the \<open>error\<close>
  event of the write stream; Node raises an \<open>error\<close> event nobody listens to as an
  uncaught exception, which ends the process and leaves the promise as it is.\<close>

fun zip_events :: "string \<Rightarrow> string promise \<Rightarrow> stream_event list \<Rightarrow> string promise \<times> event list" where
  "zip_events tmpFile p [] = (p, [])"
| "zip_events tmpFile p (ArchiveError err # es) = zip_events tmpFile (reject p err) es"
| "zip_events tmpFile p (OutputFinish # es) = (resolve p tmpFile, [])"
| "zip_events tmpFile p (OutputError err # es) = (p, [UncaughtException err])"

text \<open>An exception in the executor of \<open>new Promise\<close> rejects the promise.\<close>

definition zip :: "world \<Rightarrow> jsval \<Rightarrow> string promise \<times> event list" where
  "zip w sourcePath =
     (let t0 = [ConsoleLog (''Zipping: '' @ ToString sourcePath)] in
      case tmpNameSync w of
        Inl e \<Rightarrow> (Rejected e, t0)
      | Inr tmpFile \<Rightarrow>
          (fst (zip_events tmpFile Pending (stream_events w)),
           t0 @ [CreateWriteStream tmpFile, ArchiveDirectory sourcePath] @
           snd (zip_events tmpFile Pending (stream_events w))))"

section \<open>The uploader\<close>

text \<open>The progress listener: \<open>bar\<close> (the total it was made with, once made) and
  \<open>last\<close> are the two variables it closes over.\<close>

definition on_progress :: "int option \<times> int \<Rightarrow> progress_event \<Rightarrow> (int option \<times> int) \<times> event list" where
  "on_progress st e =
     (case fst st of
        None \<Rightarrow> ((Some (total e), snd st), [NewProgressBar (total e)])
      | Some b \<Rightarrow> ((Some b, loaded e), [BarTick (loaded e - snd st)]))"

fun run_progress :: "int option \<times> int \<Rightarrow> progress_event list \<Rightarrow> event list" where
  "run_progress st [] = []"
| "run_progress st (e # es) = snd (on_progress st e) @ run_progress (fst (on_progress st e)) es"

definition unauthorized_message :: string where
  "unauthorized_message = ''Unauthorized API access try again with a (differten) API-key''"

definition on_response :: "string \<Rightarrow> (js_error + jsval promise) \<times> event list" where
  "on_response body = (Inr (Fulfilled JUndefined), [ConsoleLogBody body])"

definition on_failure :: "js_error \<Rightarrow> (js_error + jsval promise) \<times> event list" where
  "on_failure e =
     (Inr (Fulfilled JUndefined),
      if error_status e = Some 401 then [ConsoleError unauthorized_message]
      else [ConsoleError ''Upload failed'', ConsoleLogError e])"

text \<open>The request library's \<open>field(name, val)\<close> refuses a value that is \<open>undefined\<close>
  or \<open>null\<close>: it throws, and nothing is added to the form.\<close>

definition field_value_empty :: js_error where
  "field_value_empty = ErrorObject None ''.field(name, val) val can not be empty''"

definition req_field :: "request \<Rightarrow> string \<Rightarrow> jsval \<Rightarrow> js_error + request" where
  "req_field r name v =
     (if v = JUndefined \<or> v = JNull then Inl field_value_empty
      else Inr (r\<lparr>form_fields := form_fields r @ [(name, v)]\<rparr>))"

text \<open>From \<open>request.post(url).type('form')\<close> to \<open>req.attach('file', zipfile)\<close>.\<close>

definition build_request :: "string \<Rightarrow> string \<Rightarrow> obj \<Rightarrow> RevisionInfo \<Rightarrow> js_error + request" where
  "build_request u zipfile options metadata =
     (let apiKey = get_property options (JStr ''apiKey'');
          req = \<lparr>url = u, content_type = ''form'',
                 headers = (if truthy apiKey \<and> apiKey \<noteq> JStr [] then [(''Authorization'', apiKey)] else []),
                 form_fields = [], attachments = []\<rparr>
      in case req_field req ''sha'' (sha metadata) of
           Inl e \<Rightarrow> Inl e
         | Inr r1 \<Rightarrow>
             (case req_field r1 ''gitlab_project'' (get_property options (JStr ''gitlabProject'')) of
                Inl e \<Rightarrow> Inl e
              | Inr r2 \<Rightarrow> Inr (r2\<lparr>attachments := attachments r2 @ [(''file'', zipfile)]\<rparr>)))"

text \<open>The promise of the request settles at its first end; \<open>chain\<close> is
  \<open>req.then(...).catch(...)\<close> on a request in the state \<open>q\<close>.\<close>

fun request_listener :: "string promise \<Rightarrow> request_event \<Rightarrow> string promise" where
  "request_listener p (Progress e) = p"
| "request_listener p (Responded body) = resolve p body"
| "request_listener p (Failed err) = reject p err"

definition request_outcome :: "request_event list \<Rightarrow> string promise" where
  "request_outcome es = foldl request_listener Pending es"

definition chain :: "string promise \<Rightarrow> jsval promise \<times> event list" where
  "chain q =
     (fst (promise_catch (fst (promise_then q on_response)) on_failure),
      snd (promise_then q on_response) @
      snd (promise_catch (fst (promise_then q on_response)) on_failure))"

text \<open>What is done while the request runs: each progress event runs the progress
  listener, and the end of the request, the first time, runs the callbacks of the
  chain.\<close>

fun run_request :: "int option \<times> int \<Rightarrow> string promise \<Rightarrow> request_event list \<Rightarrow> event list" where
  "run_request st p [] = []"
| "run_request st p (Progress e # es) =
     snd (on_progress st e) @ run_request (fst (on_progress st e)) p es"
| "run_request st p (Responded body # es) =
     (if p = Pending then snd (chain (Fulfilled body)) else []) @ run_request st (resolve p body) es"
| "run_request st p (Failed err # es) =
     (if p = Pending then snd (chain (Rejected err)) else []) @ run_request st (reject p err) es"

definition upload :: "world \<Rightarrow> string \<Rightarrow> obj \<Rightarrow> (js_error + jsval promise) \<times> event list" where
  "upload w zipfile options =
     (let t0 = [ConsoleLog (''Uploading to '' @ ToString (get_property options (JStr ''apiUrl'')))];
          (metadata, t1) = gitInfo w
      in case sneakpeekUrl (get_property options (JStr ''apiUrl''))
                (get_property options (JStr ''project'')) metadata of
           Inl e \<Rightarrow> (Inl e, t0 @ t1)
         | Inr u \<Rightarrow>
             (case build_request u zipfile options metadata of
                Inl e \<Rightarrow> (Inl e, t0 @ t1)
              | Inr req \<Rightarrow>
                  (Inr (fst (chain (request_outcome (request_events w)))),
                   t0 @ t1 @ HttpPost req # run_request (None, 0) Pending (request_events w))))"

section \<open>The command\<close>

definition validatePath :: "world \<Rightarrow> jsval \<Rightarrow> js_error + unit" where
  "validatePath w dir =
     (case statSync w dir of
        Inl e \<Rightarrow> Inl e
      | Inr isDirectory \<Rightarrow>
          if \<not> isDirectory
          then Inl (ThrownString (''Path '' @ ToString dir @ '' is not a directory''))
          else Inr ())"

text \<open>Objects live in a store, at the address at which they were made; an object
  made later gets a fresh address. An address that was never handed out holds no
  property.\<close>

type_synonym heap = "obj list"

definition alloc :: "heap \<Rightarrow> obj \<Rightarrow> nat \<times> heap" where
  "alloc h ob = (length h, h @ [ob])"

definition deref :: "heap \<Rightarrow> nat \<Rightarrow> obj" where
  "deref h a = (if a < length h then h ! a else [])"

text \<open>\<open>Object.assign(target, ...sources)\<close> writes every own property of every source,
  in order, into the object at \<open>target\<close>.\<close>

definition assign_from :: "heap \<Rightarrow> nat \<Rightarrow> nat \<Rightarrow> heap" where
  "assign_from h target source =
     h[target := foldl (\<lambda>t kv. set_property t (fst kv) (snd kv)) (deref h target) (deref h source)]"

definition Object_assign :: "heap \<Rightarrow> nat \<Rightarrow> nat list \<Rightarrow> heap" where
  "Object_assign h target sources = foldl (\<lambda>h' s. assign_from h' target s) h sources"

definition js_or :: "jsval \<Rightarrow> jsval \<Rightarrow> jsval" where
  "js_or a b = (if truthy a then a else b)"

definition DEFAULTS :: "world \<Rightarrow> obj" where
  "DEFAULTS w =
     [(''path'', JNull),
      (''project'', JNull),
      (''gitlabProject'', JNull),
      (''apiUrl'', js_or (process_env w ''SNEAKPEEK_API_URL'') (JStr ''https://api.peek.digitpaint.nl'')),
      (''apiKey'', js_or (process_env w ''SNEAKPEEK_API_KEY'') JNull)]"

text \<open>The first statement of \<open>uploadCommand\<close>: the empty object literal, then the
  literal of the flags, then \<open>Object.assign\<close> of \<open>DEFAULTS\<close> and of the flags into the
  first. It gives the address of \<open>options\<close> and the new store.\<close>

definition make_options :: "heap \<Rightarrow> nat \<Rightarrow> obj \<Rightarrow> nat \<times> heap" where
  "make_options h defaults argv =
     (let (target, h1) = alloc h [];
          (flags, h2) = alloc h1
             [(''project'', get_property argv (JStr ''project'')),
              (''gitlabProject'', get_property argv (JStr ''gitlabProject'')),
              (''path'', get_property argv (JStr ''path'')),
              (''apiUrl'', get_property argv (JStr ''apiUrl'')),
              (''apiKey'', get_property argv (JStr ''apiKey''))]
      in (target, Object_assign h2 target [defaults, flags]))"

text \<open>\<open>uploadCommand\<close> in a store \<open>h\<close> that holds the module's \<open>DEFAULTS\<close> object at the
  address \<open>defaults\<close>. It returns \<open>undefined\<close> and drops the promise of its chain;
  \<open>Inr p\<close> says that it returned, and gives the state \<open>p\<close> in which that chain ends.\<close>

definition uploadCommand ::
  "world \<Rightarrow> heap \<Rightarrow> nat \<Rightarrow> obj \<Rightarrow> (js_error + jsval promise) \<times> heap \<times> event list" where
  "uploadCommand w h defaults argv =
     (let (target, h') = make_options h defaults argv;
          options = deref h' target
      in case validatePath w (get_property options (JStr ''path'')) of
           Inl e \<Rightarrow> (Inl e, h', [])
         | Inr u \<Rightarrow>
             (let (p, t1) = zip w (get_property options (JStr ''path''));
                  (q, t2) = promise_then p (\<lambda>zipfile. upload w zipfile options)
              in (Inr q, h', t1 @ t2)))"

text \<open>The calls that reach the network, and the events of an upload, in a trace.\<close>

fun is_network_call :: "event \<Rightarrow> bool" where
  "is_network_call (HttpPost r) = True"
| "is_network_call e = False"

definition network_calls :: "event list \<Rightarrow> event list" where
  "network_calls t = filter is_network_call t"

text \<open>What is printed, and what is done to the progress indicator, in a trace; and the
  progress events among the events of a request.\<close>

fun is_console :: "event \<Rightarrow> bool" where
  "is_console (ConsoleLog s) = True"
| "is_console (ConsoleLogBody s) = True"
| "is_console (ConsoleLogError e) = True"
| "is_console (ConsoleError s) = True"
| "is_console e = False"

definition console_output :: "event list \<Rightarrow> event list" where
  "console_output t = filter is_console t"

fun is_bar :: "event \<Rightarrow> bool" where
  "is_bar (NewProgressBar n) = True"
| "is_bar (BarTick n) = True"
| "is_bar e = False"

definition bar_output :: "event list \<Rightarrow> event list" where
  "bar_output t = filter is_bar t"

fun progress_of :: "request_event list \<Rightarrow> progress_event list" where
  "progress_of [] = []"
| "progress_of (Progress e # es) = e # progress_of es"
| "progress_of (x # es) = progress_of es"

section \<open>Notions used to state the properties\<close>

text \<open>A key that names a property every object literal inherits.\<close>

definition names_inherited_property :: "jsval \<Rightarrow> bool" where
  "names_inherited_property k = (map_of Object_prototype (ToString k) \<noteq> None)"

text \<open>Local mode is the \<open>else\<close> branch of \<open>gitInfo\<close>; the three commands that
  \<open>getGitInfo\<close> runs for \<open>HEAD\<close>; and a command that gives \<open>git\<close> nothing to
  return: it fails, or what it prints is empty once trimmed and unquoted.\<close>

definition local_mode :: "world \<Rightarrow> bool" where
  "local_mode w = (\<not> truthy (process_env w ''CI''))"

definition show_args :: "string list" where
  "show_args = [''show'', format_arg, ''-s'', ''HEAD'']"

definition describe_args :: "string list" where
  "describe_args = [''describe'', ''--tags'', ''--exact-match'', ''HEAD'']"

definition rev_parse_args :: "string list" where
  "rev_parse_args = [''rev-parse'', ''--abbrev-ref'', ''HEAD'']"

definition git_unanswered :: "world \<Rightarrow> string list \<Rightarrow> bool" where
  "git_unanswered w args =
     (case execSync w (''git'' # args) of
        None \<Rightarrow> True
      | Some out \<Rightarrow> strip_trailing_quote (strip_leading_quote (trim out)) = [])"

subsection \<open>The specification's reading, for comparison\<close>

text \<open>Revision resolution in CI mode as the specification words it: a tag variable
  that is set gives a tag, whatever its value.\<close>

definition spec_getCiInfo :: "world \<Rightarrow> RevisionInfo" where
  "spec_getCiInfo w =
     (case env w ''CI_BUILD_TAG'' of
        Some t \<Rightarrow> \<lparr>sha = process_env w ''CI_BUILD_REF'', reftype = JStr ''tag'', ref = JStr t\<rparr>
      | None \<Rightarrow> \<lparr>sha = process_env w ''CI_BUILD_REF'', reftype = JStr ''branch'',
                  ref = process_env w ''CI_BUILD_REF_NAME''\<rparr>)"

text \<open>The progress indicator as the specification words it: the first event makes the
  indicator, every later event advances it by the bytes loaded since the event before
  it.\<close>

fun spec_ticks :: "progress_event \<Rightarrow> progress_event list \<Rightarrow> event list" where
  "spec_ticks previous [] = []"
| "spec_ticks previous (e # es) = BarTick (loaded e - loaded previous) # spec_ticks e es"

fun spec_progress :: "progress_event list \<Rightarrow> event list" where
  "spec_progress [] = []"
| "spec_progress (e # es) = NewProgressBar (total e) # spec_ticks e es"

section \<open>Concrete inputs\<close>

text \<open>A machine with no environment variable set and no \<open>git\<close> that can be run; the
  path is a directory, the archive finishes and the request succeeds.\<close>

definition quiet_world :: world where
  "quiet_world =
     \<lparr>env = Map.empty, execSync = (\<lambda>c. None), statSync = (\<lambda>p. Inr True),
      tmpNameSync = Inr ''/tmp/tmp-1'', stream_events = [OutputFinish],
      request_events = [Responded ''ok'']\<rparr>"

definition demo_options :: obj where
  "demo_options =
     [(''path'', JStr ''dist''), (''project'', JStr ''demo''),
      (''gitlabProject'', JStr ''group/demo''),
      (''apiUrl'', JStr ''https://api.example.com''), (''apiKey'', JNull)]"

definition demo_argv :: obj where
  "demo_argv =
     [(''path'', JStr ''dist''), (''project'', JStr ''demo''),
      (''gitlabProject'', JStr ''group/demo''),
      (''apiUrl'', JStr ''https://api.example.com''), (''apiKey'', JStr ''secret'')]"

text \<open>CI runs: on a tag, on a branch, with an empty tag variable, and with nothing but
  the CI indicator.\<close>

definition ci_tag_world :: world where
  "ci_tag_world = quiet_world
     \<lparr>env := map_of [(''CI'', ''1''), (''CI_BUILD_REF'', ''abc123''), (''CI_BUILD_TAG'', ''v1.2.0'')]\<rparr>"

definition ci_branch_world :: world where
  "ci_branch_world = quiet_world
     \<lparr>env := map_of [(''CI'', ''1''), (''CI_BUILD_REF'', ''abc123''), (''CI_BUILD_REF_NAME'', ''main'')]\<rparr>"

definition ci_empty_tag_world :: world where
  "ci_empty_tag_world = quiet_world
     \<lparr>env := map_of [(''CI'', ''1''), (''CI_BUILD_REF'', ''abc123''), (''CI_BUILD_TAG'', []),
                     (''CI_BUILD_REF_NAME'', ''main'')]\<rparr>"

definition ci_bare_world :: world where
  "ci_bare_world = quiet_world \<lparr>env := map_of [(''CI'', ''true'')]\<rparr>"

text \<open>A local checkout with a detached \<open>HEAD\<close> that is on no tag: the tag query
  fails and \<open>git rev-parse --abbrev-ref HEAD\<close> prints \<open>HEAD\<close>.\<close>

definition quoted_sha :: string where
  "quoted_sha = [CHR 0x22] @ ''abc123'' @ [CHR 0x22, CHR 0x0A]"

definition detached_head_world :: world where
  "detached_head_world = quiet_world
     \<lparr>execSync := map_of [(''git'' # show_args, quoted_sha),
                          (''git'' # rev_parse_args, ''HEAD'' @ [CHR 0x0A])]\<rparr>"

text \<open>A request that is answered with the status 401 after two progress events, a
  request whose connection is refused, with a progress event after the failure, an
  archive that fails, a disk that is full, and paths that are no directory.\<close>

definition unauthorized_world :: world where
  "unauthorized_world = ci_branch_world
     \<lparr>request_events := [Progress \<lparr>loaded = 40, total = 100\<rparr>, Progress \<lparr>loaded = 100, total = 100\<rparr>,
                         Failed (ErrorObject (Some 401) ''Unauthorized'')]\<rparr>"

definition offline_world :: world where
  "offline_world = ci_branch_world
     \<lparr>request_events := [Failed (ErrorObject None ''connect ECONNREFUSED''),
                         Progress \<lparr>loaded = 0, total = 100\<rparr>]\<rparr>"

definition failing_archive_world :: world where
  "failing_archive_world = ci_branch_world
     \<lparr>stream_events := [ArchiveError (ErrorObject None ''EIO: i/o error, read''), OutputFinish]\<rparr>"

definition disk_full_world :: world where
  "disk_full_world = ci_branch_world
     \<lparr>stream_events := [OutputError (ErrorObject None ''ENOSPC: no space left on device, write'')]\<rparr>"

definition file_world :: world where
  "file_world = quiet_world \<lparr>statSync := (\<lambda>p. Inr False)\<rparr>"

definition missing_world :: world where
  "missing_world = quiet_world
     \<lparr>statSync := (\<lambda>p. Inl (ErrorObject None ''ENOENT: no such file or directory, stat''))\<rparr>"

definition two_chunks :: "progress_event list" where
  "two_chunks = [\<lparr>loaded = 10, total = 100\<rparr>, \<lparr>loaded = 30, total = 100\<rparr>]"

section \<open>Properties\<close>

subsection \<open>Revision resolution\<close>

lemma getCiInfo_reftype: "reftype (getCiInfo w) = JStr ''tag'' \<or> reftype (getCiInfo w) = JStr ''branch''"
  by (simp add: getCiInfo_def)

lemma getGitInfo_reftype:
  "reftype (fst (getGitInfo w r)) \<in> {JStr ''tag'', JStr ''branch'', JNull}"
  by (simp add: getGitInfo_def Let_def split: prod.splits)

lemma gitInfo_reftype:
  "reftype (fst (gitInfo w)) \<in> {JStr ''tag'', JStr ''branch'', JNull}"
  using getCiInfo_reftype[of w] getGitInfo_reftype[of w "''HEAD''"]
  by (auto simp: gitInfo_def)

lemma gitInfo_local: "local_mode w \<Longrightarrow> gitInfo w = getGitInfo w ''HEAD''"
  by (simp add: gitInfo_def local_mode_def)

lemma gitInfo_ci: "truthy (process_env w ''CI'') \<Longrightarrow> gitInfo w = (getCiInfo w, [])"
  by (simp add: gitInfo_def)

lemma process_env_truthy_iff: "truthy (process_env w k) \<longleftrightarrow> (\<exists>v. env w k = Some v \<and> v \<noteq> [])"
  by (simp add: process_env_def split: option.splits)

lemma getCiInfo_sha: "sha (getCiInfo w) = process_env w ''CI_BUILD_REF''"
  by (simp add: getCiInfo_def)

lemma getCiInfo_bare:
  "env w ''CI_BUILD_TAG'' = None \<Longrightarrow> env w ''CI_BUILD_REF_NAME'' = None \<Longrightarrow>
     getCiInfo w = \<lparr>sha = process_env w ''CI_BUILD_REF'', reftype = JStr ''branch'', ref = JUndefined\<rparr>"
  by (simp add: getCiInfo_def process_env_def)

lemma git_falsy_iff: "\<not> truthy (fst (git w args)) \<longleftrightarrow> git_unanswered w args"
  by (simp add: git_def git_unanswered_def Let_def split: option.splits)

lemma getGitInfo_HEAD:
  "getGitInfo w ''HEAD'' =
     (if truthy (fst (git w describe_args))
      then (\<lparr>sha = fst (git w show_args), reftype = JStr ''tag'', ref = fst (git w describe_args)\<rparr>,
            [ExecSync (''git'' # show_args), ExecSync (''git'' # describe_args)])
      else (\<lparr>sha = fst (git w show_args),
             reftype = (if truthy (fst (git w rev_parse_args)) then JStr ''branch'' else JNull),
             ref = fst (git w rev_parse_args)\<rparr>,
            [ExecSync (''git'' # show_args), ExecSync (''git'' # describe_args),
             ExecSync (''git'' # rev_parse_args)]))"
  by (simp add: getGitInfo_def git_def Let_def show_args_def describe_args_def rev_parse_args_def)

lemma gitInfo_events_no_network: "network_calls (snd (gitInfo w)) = []"
  by (simp add: gitInfo_def getGitInfo_def git_def network_calls_def Let_def split: prod.splits)

subsection \<open>The upload URL\<close>

lemma reftypeToUrlMap_other:
  "v \<noteq> JStr ''tag'' \<Longrightarrow> v \<noteq> JStr ''branch'' \<Longrightarrow> map_of reftypeToUrlMap (ToString v) = None"
  by (cases v) (auto simp: reftypeToUrlMap_def)

lemma get_reftype_tag: "get_property reftypeToUrlMap (JStr ''tag'') = JStr ''tags''"
  by (simp add: get_property_def reftypeToUrlMap_def)

lemma get_reftype_branch: "get_property reftypeToUrlMap (JStr ''branch'') = JStr ''branches''"
  by (simp add: get_property_def reftypeToUrlMap_def)

lemma null_not_inherited: "\<not> names_inherited_property JNull"
  by (simp add: names_inherited_property_def Object_prototype_def)

lemma sneakpeekUrl_unresolved:
  assumes "reftype g \<noteq> JStr ''tag''" "reftype g \<noteq> JStr ''branch''"
      "\<not> names_inherited_property (reftype g)"
  shows "sneakpeekUrl base project g = Inl neither_tag_nor_branch"
  using assms reftypeToUrlMap_other[of "reftype g"]
  by (simp add: sneakpeekUrl_def get_property_def names_inherited_property_def)

lemma sneakpeekUrl_resolved:
  assumes "reftype g = JStr ''branch'' \<or> reftype g = JStr ''tag''"
  shows "sneakpeekUrl base project g =
           Inr (join_element base @ ''/projects/'' @ encodeURIComponent project @ ''/'' @
                (if reftype g = JStr ''branch'' then ''branches'' else ''tags'') @ ''/'' @
                encodeURIComponent (ref g))"
  using assms
  by (auto simp: sneakpeekUrl_def get_reftype_tag get_reftype_branch Array_join_def)

lemma encode_undefined: "encodeURIComponent JUndefined = ''undefined''"
  by code_simp

lemma enc_ex: "encodeURIComponent (JStr ''my site/v2'') = ''my%20site%2Fv2''" by code_simp

lemma enc_ex2: "encodeURIComponent (JStr ''v1.0'') = ''v1.0''" by code_simp

subsection \<open>The uploader\<close>

lemma settle_failure:
  "promise_then (Rejected e) on_response = (Rejected e, [])"
  "promise_catch (Rejected e) on_failure =
     (Fulfilled JUndefined,
      if error_status e = Some 401 then [ConsoleError unauthorized_message]
      else [ConsoleError ''Upload failed'', ConsoleLogError e])"
  by (simp_all add: promise_then_def promise_catch_def on_failure_def)

lemma settle_success:
  "promise_then (Fulfilled body) on_response = (Fulfilled JUndefined, [ConsoleLogBody body])"
  "promise_catch (Fulfilled v) on_failure = (Fulfilled v, [])"
  by (simp_all add: promise_then_def promise_catch_def on_response_def)

lemma settle_pending:
  "promise_then Pending on_response = (Pending, [])"
  "promise_catch Pending on_failure = (Pending, [])"
  by (simp_all add: promise_then_def promise_catch_def)

lemma chain_cases:
  "chain Pending = (Pending, [])"
  "chain (Fulfilled body) = (Fulfilled JUndefined, [ConsoleLogBody body])"
  "chain (Rejected e) =
     (Fulfilled JUndefined,
      if error_status e = Some 401 then [ConsoleError unauthorized_message]
      else [ConsoleError ''Upload failed'', ConsoleLogError e])"
  by (simp_all add: chain_def settle_failure settle_success settle_pending)

lemma request_settled_stays:
  "p \<noteq> Pending \<Longrightarrow> foldl request_listener p es = p"
proof (induction es arbitrary: p)
  case Nil
  then show ?case by simp
next
  case (Cons x es)
  then have "request_listener p x = p"
    by (cases x; cases p) (simp_all add: reject_def resolve_def)
  with Cons show ?case by simp
qed

lemma network_calls_chain: "network_calls (snd (chain q)) = []"
  by (cases q) (simp_all add: chain_cases network_calls_def)

lemma bar_output_chain: "bar_output (snd (chain q)) = []"
  by (cases q) (simp_all add: chain_cases bar_output_def)

lemma network_calls_on_progress: "network_calls (snd (on_progress st e)) = []"
  by (simp add: network_calls_def on_progress_def split: option.splits)

lemma console_on_progress: "console_output (snd (on_progress st e)) = []"
  by (simp add: console_output_def on_progress_def split: option.splits)

lemma network_calls_append: "network_calls (xs @ ys) = network_calls xs @ network_calls ys"
  by (simp add: network_calls_def)

lemma console_output_append: "console_output (xs @ ys) = console_output xs @ console_output ys"
  by (simp add: console_output_def)

lemma bar_output_append: "bar_output (xs @ ys) = bar_output xs @ bar_output ys"
  by (simp add: bar_output_def)

lemma network_calls_run_request: "network_calls (run_request st p es) = []"
proof (induction st p es rule: run_request.induct)
  case (1 st p)
  then show ?case by (simp add: network_calls_def)
next
  case (2 st p e es)
  then show ?case by (simp add: network_calls_append network_calls_on_progress)
next
  case (3 st p body es)
  then show ?case by (simp add: network_calls_append network_calls_chain) (simp add: network_calls_def)
next
  case (4 st p err es)
  then show ?case by (simp add: network_calls_append network_calls_chain) (simp add: network_calls_def)
qed

text \<open>The callbacks of the chain run once, at the first end of the request: what is
  printed while the request runs is what the chain prints for the outcome.\<close>

lemma console_run_request:
  "console_output (run_request st p es) =
     (if p = Pending then console_output (snd (chain (foldl request_listener Pending es))) else [])"
proof (induction st p es rule: run_request.induct)
  case (1 st p)
  then show ?case by (simp add: chain_cases console_output_def)
next
  case (2 st p e es)
  then show ?case by (simp add: console_output_append console_on_progress)
next
  case (3 st p body es)
  show ?case
  proof (cases "p = Pending")
    case True
    with 3 show ?thesis
      by (simp add: console_output_append resolve_def request_settled_stays)
  next
    case False
    then have "resolve p body = p" by (cases p) (simp_all add: resolve_def)
    with 3 False show ?thesis by (simp add: console_output_def)
  qed
next
  case (4 st p err es)
  show ?case
  proof (cases "p = Pending")
    case True
    with 4 show ?thesis
      by (simp add: console_output_append reject_def request_settled_stays)
  next
    case False
    then have "reject p err = p" by (cases p) (simp_all add: reject_def)
    with 4 False show ?thesis by (simp add: console_output_def)
  qed
qed

text \<open>What is done to the progress indicator while the request runs is the progress
  listener run over the progress events, wherever the end of the request falls.\<close>

lemma bar_run_progress: "bar_output (run_progress st es) = run_progress st es"
  by (induction es arbitrary: st)
     (simp_all add: bar_output_def on_progress_def split: option.splits)

lemma bar_run_request: "bar_output (run_request st p es) = run_progress st (progress_of es)"
proof (induction st p es rule: run_request.induct)
  case (1 st p)
  then show ?case by (simp add: bar_output_def)
next
  case (2 st p e es)
  then show ?case
    by (simp add: bar_output_append) (simp add: bar_output_def on_progress_def split: option.splits)
next
  case (3 st p body es)
  then show ?case by (simp add: bar_output_append bar_output_chain) (simp add: bar_output_def)
next
  case (4 st p err es)
  then show ?case by (simp add: bar_output_append bar_output_chain) (simp add: bar_output_def)
qed

lemma build_request_accepted:
  assumes "s \<noteq> JUndefined" "s \<noteq> JNull"
      and "get_property options (JStr ''gitlabProject'') \<noteq> JUndefined"
      and "get_property options (JStr ''gitlabProject'') \<noteq> JNull"
      and "sha m = s"
  shows "build_request u zipfile options m =
     Inr \<lparr>url = u, content_type = ''form'',
          headers = (if truthy (get_property options (JStr ''apiKey'')) \<and>
                        get_property options (JStr ''apiKey'') \<noteq> JStr []
                     then [(''Authorization'', get_property options (JStr ''apiKey''))] else []),
          form_fields = [(''sha'', s),
                         (''gitlab_project'', get_property options (JStr ''gitlabProject''))],
          attachments = [(''file'', zipfile)]\<rparr>"
  using assms by (simp add: build_request_def req_field_def Let_def)

lemma build_request_refused:
  assumes "sha m = JUndefined \<or> sha m = JNull \<or>
           get_property options (JStr ''gitlabProject'') = JUndefined \<or>
           get_property options (JStr ''gitlabProject'') = JNull"
  shows "build_request u zipfile options m = Inl field_value_empty"
  using assms by (auto simp: build_request_def req_field_def Let_def)

lemma upload_throws:
  assumes "gitInfo w = (m, t1)"
      and "sneakpeekUrl (get_property options (JStr ''apiUrl''))
             (get_property options (JStr ''project'')) m = Inl e"
  shows "upload w zipfile options =
           (Inl e, ConsoleLog (''Uploading to '' @ ToString (get_property options (JStr ''apiUrl''))) # t1)"
  using assms by (simp add: upload_def)

lemma upload_refused:
  assumes "gitInfo w = (m, t1)"
      and "sneakpeekUrl (get_property options (JStr ''apiUrl''))
             (get_property options (JStr ''project'')) m = Inr u"
      and "build_request u zipfile options m = Inl e"
  shows "upload w zipfile options =
           (Inl e, ConsoleLog (''Uploading to '' @ ToString (get_property options (JStr ''apiUrl''))) # t1)"
  using assms by (simp add: upload_def)

lemma upload_sends:
  assumes "gitInfo w = (m, t1)"
      and "sneakpeekUrl (get_property options (JStr ''apiUrl''))
             (get_property options (JStr ''project'')) m = Inr u"
      and "build_request u zipfile options m = Inr req"
  shows "upload w zipfile options =
           (Inr (fst (chain (request_outcome (request_events w)))),
            ConsoleLog (''Uploading to '' @ ToString (get_property options (JStr ''apiUrl''))) # t1 @
            HttpPost req # run_request (None, 0) Pending (request_events w))"
  using assms by (simp add: upload_def)

lemma upload_unresolved:
  assumes "reftype (fst (gitInfo w)) \<noteq> JStr ''tag''" "reftype (fst (gitInfo w)) \<noteq> JStr ''branch''"
  shows "fst (upload w zipfile options) = Inl neither_tag_nor_branch \<and>
         network_calls (snd (upload w zipfile options)) = []"
proof -
  obtain m t1 where g: "gitInfo w = (m, t1)" by (cases "gitInfo w")
  from assms gitInfo_reftype[of w] g have n: "reftype m = JNull" by auto
  have s: "sneakpeekUrl b p m = Inl neither_tag_nor_branch" for b p
    using sneakpeekUrl_unresolved[of m b p] null_not_inherited n by simp
  from gitInfo_events_no_network[of w] g have t: "network_calls t1 = []" by simp
  show ?thesis
    using t by (simp add: upload_throws[OF g s] network_calls_def)
qed

lemma network_calls_upload_sends:
  assumes "gitInfo w = (m, t1)"
      and "sneakpeekUrl (get_property options (JStr ''apiUrl''))
             (get_property options (JStr ''project'')) m = Inr u"
      and "build_request u zipfile options m = Inr req"
  shows "network_calls (snd (upload w zipfile options)) = [HttpPost req]"
proof -
  have t: "network_calls t1 = []"
    using gitInfo_events_no_network[of w] assms(1) by simp
  have c: "network_calls (x # xs) = (if is_network_call x then [x] else []) @ network_calls xs" for x xs
    by (simp add: network_calls_def)
  show ?thesis
    unfolding upload_sends[OF assms] snd_conv
    by (simp add: network_calls_append c t network_calls_run_request)
qed

lemma console_upload_sends:
  assumes "gitInfo w = (m, t1)"
      and "sneakpeekUrl (get_property options (JStr ''apiUrl''))
             (get_property options (JStr ''project'')) m = Inr u"
      and "build_request u zipfile options m = Inr req"
  shows "console_output (snd (upload w zipfile options)) =
           ConsoleLog (''Uploading to '' @ ToString (get_property options (JStr ''apiUrl''))) #
           console_output (snd (chain (request_outcome (request_events w))))"
proof -
  have "console_output (snd (gitInfo w)) = []"
    by (simp add: gitInfo_def getGitInfo_def git_def console_output_def Let_def split: prod.splits)
  with assms(1) have t: "console_output t1 = []" by simp
  have c: "console_output (x # xs) = (if is_console x then [x] else []) @ console_output xs" for x xs
    by (simp add: console_output_def)
  show ?thesis
    unfolding upload_sends[OF assms] snd_conv
    by (simp add: console_output_append c t console_run_request request_outcome_def)
qed

lemma upload_posted:
  assumes "network_calls (snd (upload w zipfile options)) \<noteq> []"
  obtains u req where
    "sneakpeekUrl (get_property options (JStr ''apiUrl''))
       (get_property options (JStr ''project'')) (fst (gitInfo w)) = Inr u"
    "build_request u zipfile options (fst (gitInfo w)) = Inr req"
proof -
  obtain m t1 where g: "gitInfo w = (m, t1)" by (cases "gitInfo w")
  from gitInfo_events_no_network[of w] g have t: "network_calls t1 = []" by simp
  show ?thesis
  proof (cases "sneakpeekUrl (get_property options (JStr ''apiUrl''))
                  (get_property options (JStr ''project'')) m")
    case (Inl e)
    with assms t show ?thesis by (simp add: upload_throws[OF g Inl] network_calls_def)
  next
    case (Inr u)
    show ?thesis
    proof (cases "build_request u zipfile options m")
      case (Inl e)
      with assms t show ?thesis by (simp add: upload_refused[OF g Inr Inl] network_calls_def)
    next
      case r: (Inr req)
      with Inr g that show ?thesis by simp
    qed
  qed
qed

lemma run_progress_made:
  "run_progress (Some b, loaded previous) es = spec_ticks previous es"
proof (induction es arbitrary: previous)
  case Nil
  then show ?case by simp
next
  case (Cons e es)
  from Cons.IH[of e] show ?case by (simp add: on_progress_def)
qed

subsection \<open>The archiver\<close>

lemma zip_with_tmp:
  "tmpNameSync w = Inr f \<Longrightarrow>
     zip w sp = (fst (zip_events f Pending (stream_events w)),
                 [ConsoleLog (''Zipping: '' @ ToString sp), CreateWriteStream f, ArchiveDirectory sp] @
                 snd (zip_events f Pending (stream_events w)))"
  by (simp add: zip_def)

lemma then_rejected: "promise_then (Rejected e) k = (Rejected e, [])"
  by (simp add: promise_then_def)

lemma then_pending: "promise_then Pending k = (Pending, [])"
  by (simp add: promise_then_def)

subsection \<open>The command and the store\<close>

lemma map_of_set_property:
  "map_of (set_property t k v) k' = (if k' = k then Some v else map_of t k')"
  by (induction t) auto

lemma make_options_address: "fst (make_options h d argv) = length h"
  by (simp add: make_options_def alloc_def)

lemma make_options_length: "length (snd (make_options h d argv)) = length h + 2"
  by (simp add: make_options_def alloc_def Object_assign_def assign_from_def)

lemma make_options_frame: "a < length h \<Longrightarrow> snd (make_options h d argv) ! a = h ! a"
  by (simp add: make_options_def alloc_def Object_assign_def assign_from_def nth_append)

lemma make_options_take: "take (length h) (snd (make_options h d argv)) = h"
  by (simp add: make_options_def alloc_def Object_assign_def assign_from_def)

lemma options_own:
  assumes "k \<in> {''project'', ''gitlabProject'', ''path'', ''apiUrl'', ''apiKey''}"
  shows "map_of (deref (snd (make_options h d argv)) (fst (make_options h d argv))) k =
           Some (get_property argv (JStr k))"
  using assms
  by (auto simp: make_options_def alloc_def Object_assign_def assign_from_def deref_def
        nth_append map_of_set_property)

lemma options_read:
  assumes "k \<in> {''project'', ''gitlabProject'', ''path'', ''apiUrl'', ''apiKey''}"
  shows "get_property (deref (snd (make_options h d argv)) (fst (make_options h d argv))) (JStr k) =
           get_property argv (JStr k)"
  using options_own[OF assms, of h d argv] by (simp add: get_property_def[of "deref _ _"])

lemma validatePath_cases:
  "statSync w p = Inl e \<Longrightarrow> validatePath w p = Inl e"
  "statSync w p = Inr False \<Longrightarrow>
     validatePath w p = Inl (ThrownString (''Path '' @ ToString p @ '' is not a directory''))"
  "statSync w p = Inr True \<Longrightarrow> validatePath w p = Inr ()"
  by (simp_all add: validatePath_def)

lemma uploadCommand_unfold:
  "uploadCommand w h d argv =
     (case validatePath w (get_property argv (JStr ''path'')) of
        Inl e \<Rightarrow> (Inl e, snd (make_options h d argv), [])
      | Inr u \<Rightarrow>
          (Inr (fst (promise_then (fst (zip w (get_property argv (JStr ''path''))))
                  (\<lambda>zipfile. upload w zipfile (deref (snd (make_options h d argv)) (length h))))),
           snd (make_options h d argv),
           snd (zip w (get_property argv (JStr ''path''))) @
           snd (promise_then (fst (zip w (get_property argv (JStr ''path''))))
                  (\<lambda>zipfile. upload w zipfile (deref (snd (make_options h d argv)) (length h))))))"
proof -
  have p: "get_property (deref (snd (make_options h d argv)) (length h)) (JStr ''path'')
           = get_property argv (JStr ''path'')"
    using options_read[of "''path''" h d argv] by (simp add: make_options_address)
  show ?thesis
    by (simp add: uploadCommand_def Let_def case_prod_beta make_options_address p split: sum.splits)
qed

lemma uploadCommand_heap: "fst (snd (uploadCommand w h d argv)) = snd (make_options h d argv)"
  by (simp add: uploadCommand_unfold split: sum.splits)

subsection \<open>The concrete inputs\<close>

lemma quiet_world_reftype: "reftype (fst (gitInfo quiet_world)) = JNull"
  by (simp add: gitInfo_def quiet_world_def process_env_def getGitInfo_def git_def)

lemma ci_tag_env: "env ci_tag_world ''CI'' = Some ''1'' \<and> env ci_tag_world ''CI_BUILD_TAG'' = Some ''v1.2.0''
   \<and> process_env ci_tag_world ''CI_BUILD_REF'' = JStr ''abc123''"
  by (simp add: ci_tag_world_def quiet_world_def process_env_def)

lemma ci_empty_tag_env: "env ci_empty_tag_world ''CI'' = Some ''1'' \<and> env ci_empty_tag_world ''CI_BUILD_TAG'' = Some []
   \<and> process_env ci_empty_tag_world ''CI_BUILD_REF_NAME'' = JStr ''main''"
  by (simp add: ci_empty_tag_world_def quiet_world_def process_env_def)

section \<open>The claims\<close>

text \<open>
  C1. A RevisionInfo whose reftype is neither "tag" nor "branch" makes \<open>sneakpeekUrl\<close>
  throw its message, and an upload whose resolved revision is such throws the same
  before it posts anything: the trace of the upload holds no network call.
  The reftype of a RevisionInfo is "tag", "branch" or null (\<open>gitInfo_reftype\<close>), and
  null is the second part. The first part says the same of every other value, except
  the twelve names that an object literal inherits from \<open>Object.prototype\<close>, which
  the lookup table answers and which no RevisionInfo carries.
\<close>

theorem unresolved_reftype_fails_before_network:
  "(reftype g \<noteq> JStr ''tag'' \<longrightarrow> reftype g \<noteq> JStr ''branch'' \<longrightarrow>
      \<not> names_inherited_property (reftype g) \<longrightarrow>
      sneakpeekUrl base project g = Inl neither_tag_nor_branch) \<and>
   (reftype g = JNull \<longrightarrow> sneakpeekUrl base project g = Inl neither_tag_nor_branch) \<and>
   (reftype (fst (gitInfo w)) \<noteq> JStr ''tag'' \<longrightarrow> reftype (fst (gitInfo w)) \<noteq> JStr ''branch'' \<longrightarrow>
      fst (upload w zipfile options) = Inl neither_tag_nor_branch \<and>
      network_calls (snd (upload w zipfile options)) = [])"
proof -
  have "reftype g = JNull \<longrightarrow> sneakpeekUrl base project g = Inl neither_tag_nor_branch"
    using sneakpeekUrl_unresolved[of g base project] null_not_inherited by simp
  then show ?thesis
    using sneakpeekUrl_unresolved[of g base project] upload_unresolved[of w zipfile options]
    by blast
qed

theorem unresolved_reftype_fails_before_network_witness:
  "sneakpeekUrl (JStr ''https://api.example.com'') (JStr ''demo'')
      \<lparr>sha = JNull, reftype = JNull, ref = JNull\<rparr> = Inl neither_tag_nor_branch \<and>
   fst (upload quiet_world ''/tmp/tmp-1'' demo_options) = Inl neither_tag_nor_branch \<and>
   network_calls (snd (upload quiet_world ''/tmp/tmp-1'' demo_options)) = []"
  using unresolved_reftype_fails_before_network[of
      "\<lparr>sha = JNull, reftype = JNull, ref = JNull\<rparr>" "JStr ''https://api.example.com''"
      "JStr ''demo''" quiet_world "''/tmp/tmp-1''" demo_options]
  by (simp add: quiet_world_reftype null_not_inherited)

text \<open>
  C2. For a base URL, a project and a RevisionInfo whose reftype is "branch" or "tag",
  the URL is the base, \<open>/projects/\<close>, the encoded project, \<open>/branches/\<close> or
  \<open>/tags/\<close>, and the encoded ref; for the project "demo" on the branch "main"
  at \<open>https://api.example.com\<close> it is
  \<open>https://api.example.com/projects/demo/branches/main\<close>.
\<close>

theorem sneakpeekUrl_builds_url:
  "(reftype g = JStr ''branch'' \<or> reftype g = JStr ''tag'' \<longrightarrow>
      sneakpeekUrl (JStr apiUrl) (JStr project) g =
        Inr (apiUrl @ ''/projects/'' @ encodeURIComponent (JStr project) @ ''/'' @
             (if reftype g = JStr ''branch'' then ''branches'' else ''tags'') @ ''/'' @
             encodeURIComponent (ref g))) \<and>
   sneakpeekUrl (JStr ''https://api.example.com'') (JStr ''demo'')
      \<lparr>sha = s, reftype = JStr ''branch'', ref = JStr ''main''\<rparr> =
     Inr ''https://api.example.com/projects/demo/branches/main''"
proof
  show "reftype g = JStr ''branch'' \<or> reftype g = JStr ''tag'' \<longrightarrow>
      sneakpeekUrl (JStr apiUrl) (JStr project) g =
        Inr (apiUrl @ ''/projects/'' @ encodeURIComponent (JStr project) @ ''/'' @
             (if reftype g = JStr ''branch'' then ''branches'' else ''tags'') @ ''/'' @
             encodeURIComponent (ref g))"
    using sneakpeekUrl_resolved[of g "JStr apiUrl" "JStr project"] by simp
next
  have d: "encodeURIComponent (JStr ''demo'') = ''demo''" by code_simp
  have m: "encodeURIComponent (JStr ''main'') = ''main''" by code_simp
  show "sneakpeekUrl (JStr ''https://api.example.com'') (JStr ''demo'')
      \<lparr>sha = s, reftype = JStr ''branch'', ref = JStr ''main''\<rparr> =
     Inr ''https://api.example.com/projects/demo/branches/main''"
    by (simp add: sneakpeekUrl_resolved d m)
qed

theorem sneakpeekUrl_builds_url_witness:
  "sneakpeekUrl (JStr ''https://api.example.com'') (JStr ''my site/v2'')
      \<lparr>sha = JStr ''abc123'', reftype = JStr ''tag'', ref = JStr ''v1.0''\<rparr> =
     Inr ''https://api.example.com/projects/my%20site%2Fv2/tags/v1.0''"
  using sneakpeekUrl_builds_url[of "\<lparr>sha = JStr ''abc123'', reftype = JStr ''tag'', ref = JStr ''v1.0''\<rparr>"
      "''https://api.example.com''" "''my site/v2''"]
  by (simp add: enc_ex enc_ex2)

text \<open>
  C3, as the code has it. When the CI indicator is set to a non-empty value, no
  \<open>git\<close> command is run, the sha is the value of \<open>CI_BUILD_REF\<close>, a
  \<open>CI_BUILD_TAG\<close> that is set to a non-empty value gives reftype "tag" and that
  tag as ref, and a \<open>CI_BUILD_TAG\<close> that is unset or empty gives reftype "branch"
  and the value of \<open>CI_BUILD_REF_NAME\<close> as ref. The two examples of the claim hold.
\<close>

theorem ci_resolution_nonempty:
  "(env w ''CI'' = Some c \<and> c \<noteq> [] \<longrightarrow>
      snd (gitInfo w) = [] \<and>
      sha (fst (gitInfo w)) = process_env w ''CI_BUILD_REF'' \<and>
      (\<forall>t. env w ''CI_BUILD_TAG'' = Some t \<and> t \<noteq> [] \<longrightarrow>
           reftype (fst (gitInfo w)) = JStr ''tag'' \<and> ref (fst (gitInfo w)) = JStr t) \<and>
      (env w ''CI_BUILD_TAG'' = None \<or> env w ''CI_BUILD_TAG'' = Some [] \<longrightarrow>
           reftype (fst (gitInfo w)) = JStr ''branch'' \<and>
           ref (fst (gitInfo w)) = process_env w ''CI_BUILD_REF_NAME'')) \<and>
   fst (gitInfo ci_tag_world) = \<lparr>sha = JStr ''abc123'', reftype = JStr ''tag'', ref = JStr ''v1.2.0''\<rparr> \<and>
   fst (gitInfo ci_branch_world) = \<lparr>sha = JStr ''abc123'', reftype = JStr ''branch'', ref = JStr ''main''\<rparr>"
proof (intro conjI impI)
  assume ci: "env w ''CI'' = Some c \<and> c \<noteq> []"
  then have g: "gitInfo w = (getCiInfo w, [])"
    by (simp add: gitInfo_ci process_env_truthy_iff)
  show "snd (gitInfo w) = []" by (simp add: g)
  show "sha (fst (gitInfo w)) = process_env w ''CI_BUILD_REF''"
    by (simp add: g getCiInfo_def)
  show "\<forall>t. env w ''CI_BUILD_TAG'' = Some t \<and> t \<noteq> [] \<longrightarrow>
           reftype (fst (gitInfo w)) = JStr ''tag'' \<and> ref (fst (gitInfo w)) = JStr t"
    by (simp add: g getCiInfo_def process_env_def)
  { assume "env w ''CI_BUILD_TAG'' = None \<or> env w ''CI_BUILD_TAG'' = Some []"
    then have f: "\<not> truthy (process_env w ''CI_BUILD_TAG'')"
      by (auto simp: process_env_def)
    show "reftype (fst (gitInfo w)) = JStr ''branch''" by (simp add: g getCiInfo_def f)
    show "ref (fst (gitInfo w)) = process_env w ''CI_BUILD_REF_NAME''" by (simp add: g getCiInfo_def f) }
next
  show "fst (gitInfo ci_tag_world) = \<lparr>sha = JStr ''abc123'', reftype = JStr ''tag'', ref = JStr ''v1.2.0''\<rparr>"
    by code_simp
  show "fst (gitInfo ci_branch_world) = \<lparr>sha = JStr ''abc123'', reftype = JStr ''branch'', ref = JStr ''main''\<rparr>"
    by code_simp
qed

theorem ci_resolution_nonempty_witness:
  "snd (gitInfo ci_tag_world) = [] \<and>
   sha (fst (gitInfo ci_tag_world)) = JStr ''abc123'' \<and>
   reftype (fst (gitInfo ci_tag_world)) = JStr ''tag'' \<and>
   ref (fst (gitInfo ci_tag_world)) = JStr ''v1.2.0'' \<and>
   reftype (fst (gitInfo ci_empty_tag_world)) = JStr ''branch'' \<and>
   ref (fst (gitInfo ci_empty_tag_world)) = JStr ''main''"
  using ci_resolution_nonempty[of ci_tag_world "''1''"] ci_resolution_nonempty[of ci_empty_tag_world "''1''"]
  by (simp add: ci_tag_env ci_empty_tag_env)

text \<open>
  C3 as it is stated fails where \<open>CI_BUILD_TAG\<close> is set to the empty string: the
  variable is set, and the result is the branch "main", not a tag.
\<close>

theorem ci_empty_tag_counterexample:
  "env ci_empty_tag_world ''CI'' = Some ''1'' \<and>
   env ci_empty_tag_world ''CI_BUILD_TAG'' = Some [] \<and>
   spec_getCiInfo ci_empty_tag_world = \<lparr>sha = JStr ''abc123'', reftype = JStr ''tag'', ref = JStr []\<rparr> \<and>
   fst (gitInfo ci_empty_tag_world) = \<lparr>sha = JStr ''abc123'', reftype = JStr ''branch'', ref = JStr ''main''\<rparr> \<and>
   fst (gitInfo ci_empty_tag_world) \<noteq> spec_getCiInfo ci_empty_tag_world"
  by code_simp

text \<open>
  C4. In local mode the exact tag of \<open>HEAD\<close> is asked for first and the branch name
  only when that fails or prints nothing (\<open>getGitInfo_HEAD\<close>); the reftype is null
  when the branch-name query fails or prints nothing too, and \<open>sneakpeekUrl\<close> then
  throws that the project is neither on a tag nor on a branch. On a detached \<open>HEAD\<close>
  that is on no tag, which is that state, the branch-name query prints \<open>HEAD\<close>:
  the reftype is "branch" with the ref "HEAD", not null, and the upload is posted to
  \<open>/branches/HEAD\<close>.
\<close>

theorem detached_head_is_taken_for_a_branch:
  "local_mode detached_head_world \<and>
   git_unanswered detached_head_world describe_args \<and>
   fst (git detached_head_world rev_parse_args) = JStr ''HEAD'' \<and>
   fst (gitInfo detached_head_world) =
     \<lparr>sha = JStr ''abc123'', reftype = JStr ''branch'', ref = JStr ''HEAD''\<rparr> \<and>
   reftype (fst (gitInfo detached_head_world)) \<noteq> JNull \<and>
   sneakpeekUrl (JStr ''https://api.example.com'') (JStr ''demo'') (fst (gitInfo detached_head_world)) =
     Inr ''https://api.example.com/projects/demo/branches/HEAD'' \<and>
   network_calls (snd (upload detached_head_world ''/tmp/tmp-1'' demo_options)) =
     [HttpPost \<lparr>url = ''https://api.example.com/projects/demo/branches/HEAD'', content_type = ''form'',
                headers = [],
                form_fields = [(''sha'', JStr ''abc123''), (''gitlab_project'', JStr ''group/demo'')],
                attachments = [(''file'', ''/tmp/tmp-1'')]\<rparr>] \<and>
   reftype (fst (gitInfo quiet_world)) = JNull \<and>
   sneakpeekUrl (JStr ''https://api.example.com'') (JStr ''demo'') (fst (gitInfo quiet_world)) =
     Inl neither_tag_nor_branch"
  by code_simp

text \<open>
  C5. When \<open>upload\<close> has posted its request and the request fails with any error,
  \<open>upload\<close> has returned a promise, not thrown, and that promise is fulfilled, not
  rejected. Apart from the line that announces the upload, what is printed is the
  unauthorized message when the status of the error is 401, and otherwise
  \<open>Upload failed\<close> followed by the error; progress events may come before or
  after.
\<close>

theorem upload_failure_resolves:
  "network_calls (snd (upload w zipfile options)) \<noteq> [] \<and>
   request_outcome (request_events w) = Rejected e \<longrightarrow>
     fst (upload w zipfile options) = Inr (Fulfilled JUndefined) \<and>
     console_output (snd (upload w zipfile options)) =
       ConsoleLog (''Uploading to '' @ ToString (get_property options (JStr ''apiUrl''))) #
       (if error_status e = Some 401 then [ConsoleError unauthorized_message]
        else [ConsoleError ''Upload failed'', ConsoleLogError e])"
proof (intro impI)
  assume a: "network_calls (snd (upload w zipfile options)) \<noteq> [] \<and>
   request_outcome (request_events w) = Rejected e"
  then have r: "request_outcome (request_events w) = Rejected e" by simp
  obtain m t1 where g: "gitInfo w = (m, t1)" by (cases "gitInfo w")
  from a obtain u req where
    u: "sneakpeekUrl (get_property options (JStr ''apiUrl''))
          (get_property options (JStr ''project'')) m = Inr u"
    and b: "build_request u zipfile options m = Inr req"
    using upload_posted[of w zipfile options] g by auto
  have "fst (upload w zipfile options) = Inr (Fulfilled JUndefined)"
    by (simp add: upload_sends[OF g u b] r chain_cases)
  moreover have "console_output (snd (upload w zipfile options)) =
       ConsoleLog (''Uploading to '' @ ToString (get_property options (JStr ''apiUrl''))) #
       (if error_status e = Some 401 then [ConsoleError unauthorized_message]
        else [ConsoleError ''Upload failed'', ConsoleLogError e])"
  proof -
    have "console_output (snd (upload w zipfile options)) =
       ConsoleLog (''Uploading to '' @ ToString (get_property options (JStr ''apiUrl''))) #
       console_output (snd (chain (Rejected e)))"
      using console_upload_sends[OF g u b] r by simp
    then show ?thesis by (simp add: chain_cases console_output_def)
  qed
  ultimately show "fst (upload w zipfile options) = Inr (Fulfilled JUndefined) \<and>
     console_output (snd (upload w zipfile options)) =
       ConsoleLog (''Uploading to '' @ ToString (get_property options (JStr ''apiUrl''))) #
       (if error_status e = Some 401 then [ConsoleError unauthorized_message]
        else [ConsoleError ''Upload failed'', ConsoleLogError e])"
    by simp
qed

theorem upload_failure_resolves_witness:
  "fst (upload unauthorized_world ''/tmp/tmp-1'' demo_options) = Inr (Fulfilled JUndefined) \<and>
   console_output (snd (upload unauthorized_world ''/tmp/tmp-1'' demo_options)) =
     [ConsoleLog ''Uploading to https://api.example.com'', ConsoleError unauthorized_message] \<and>
   fst (upload offline_world ''/tmp/tmp-1'' demo_options) = Inr (Fulfilled JUndefined) \<and>
   console_output (snd (upload offline_world ''/tmp/tmp-1'' demo_options)) =
     [ConsoleLog ''Uploading to https://api.example.com'', ConsoleError ''Upload failed'',
      ConsoleLogError (ErrorObject None ''connect ECONNREFUSED'')]"
proof -
  have u: "network_calls (snd (upload unauthorized_world ''/tmp/tmp-1'' demo_options)) \<noteq> []"
    "request_outcome (request_events unauthorized_world) = Rejected (ErrorObject (Some 401) ''Unauthorized'')"
    by code_simp+
  have o: "network_calls (snd (upload offline_world ''/tmp/tmp-1'' demo_options)) \<noteq> []"
    "request_outcome (request_events offline_world) = Rejected (ErrorObject None ''connect ECONNREFUSED'')"
    by code_simp+
  have d: "ToString (get_property demo_options (JStr ''apiUrl'')) = ''https://api.example.com''"
    by (simp add: demo_options_def get_property_def)
  show ?thesis
    using upload_failure_resolves[of unauthorized_world "''/tmp/tmp-1''" demo_options "ErrorObject (Some 401) ''Unauthorized''"]
          upload_failure_resolves[of offline_world "''/tmp/tmp-1''" demo_options "ErrorObject None ''connect ECONNREFUSED''"]
    by (simp add: u o d)
qed

text \<open>
  C6. An error that the archive reports rejects the promise of \<open>zip\<close>. An error of
  the write stream, as on a full disk, does not: nothing listens to it, it is raised
  as an uncaught exception, the promise of \<open>zip\<close> stays pending and so does the
  chain of \<open>uploadCommand\<close>, which does nothing after \<open>zip\<close>.
\<close>

theorem write_stream_error_never_rejects:
  "fst (zip failing_archive_world (JStr ''dist'')) = Rejected (ErrorObject None ''EIO: i/o error, read'') \<and>
   fst (zip disk_full_world (JStr ''dist'')) = Pending \<and>
   snd (zip disk_full_world (JStr ''dist'')) =
     [ConsoleLog ''Zipping: dist'', CreateWriteStream ''/tmp/tmp-1'', ArchiveDirectory (JStr ''dist''),
      UncaughtException (ErrorObject None ''ENOSPC: no space left on device, write'')] \<and>
   fst (uploadCommand disk_full_world [DEFAULTS disk_full_world] 0 demo_argv) = Inr Pending \<and>
   snd (snd (uploadCommand disk_full_world [DEFAULTS disk_full_world] 0 demo_argv)) =
     snd (zip disk_full_world (JStr ''dist''))"
  by code_simp

text \<open>
  C7. When \<open>fs.statSync\<close> throws for the path (it does not exist), \<open>uploadCommand\<close>
  throws that error; when the path is not a directory, it throws
  \<open>Path ... is not a directory\<close>. In both cases the throw comes out of the call
  itself and nothing has been done to the outside: nothing is printed, no temporary
  file is named, no stream is opened.
\<close>

theorem invalid_path_throws_synchronously:
  "(statSync w (get_property argv (JStr ''path'')) = Inl e \<longrightarrow>
      fst (uploadCommand w h d argv) = Inl e \<and> snd (snd (uploadCommand w h d argv)) = []) \<and>
   (statSync w (get_property argv (JStr ''path'')) = Inr False \<longrightarrow>
      fst (uploadCommand w h d argv) =
        Inl (ThrownString (''Path '' @ ToString (get_property argv (JStr ''path'')) @ '' is not a directory'')) \<and>
      snd (snd (uploadCommand w h d argv)) = [])"
  by (simp add: uploadCommand_unfold validatePath_cases)

theorem invalid_path_throws_synchronously_witness:
  "fst (uploadCommand missing_world [DEFAULTS missing_world] 0 demo_argv) =
     Inl (ErrorObject None ''ENOENT: no such file or directory, stat'') \<and>
   snd (snd (uploadCommand missing_world [DEFAULTS missing_world] 0 demo_argv)) = [] \<and>
   fst (uploadCommand file_world [DEFAULTS file_world] 0 demo_argv) =
     Inl (ThrownString ''Path dist is not a directory'') \<and>
   snd (snd (uploadCommand file_world [DEFAULTS file_world] 0 demo_argv)) = []"
proof -
  have m: "statSync missing_world (get_property demo_argv (JStr ''path'')) =
             Inl (ErrorObject None ''ENOENT: no such file or directory, stat'')"
    by (simp add: missing_world_def quiet_world_def)
  have f: "statSync file_world (get_property demo_argv (JStr ''path'')) = Inr False"
    by (simp add: file_world_def quiet_world_def)
  have p: "ToString (get_property demo_argv (JStr ''path'')) = ''dist''"
    by (simp add: demo_argv_def get_property_def)
  show ?thesis
    using invalid_path_throws_synchronously[of missing_world demo_argv "ErrorObject None ''ENOENT: no such file or directory, stat''"
             "[DEFAULTS missing_world]" 0]
          invalid_path_throws_synchronously[of file_world demo_argv "ThrownString []" "[DEFAULTS file_world]" 0]
    by (simp add: m f p)
qed

text \<open>
  C8, as the code has it. The first progress event makes the indicator with that event's
  total; every later event advances it by the bytes loaded since the event before it,
  where the first event counts as no byte loaded: the second event advances the
  indicator by all the bytes loaded so far.
\<close>

theorem progress_ticks_from_zero:
  "run_progress (None, 0) (e # es) = spec_progress (e\<lparr>loaded := 0\<rparr> # es)"
  using run_progress_made[of "total e" "e\<lparr>loaded := 0\<rparr>" es]
  by (simp add: on_progress_def)

theorem progress_ticks_from_zero_witness:
  "run_progress (None, 0) two_chunks =
     spec_progress [\<lparr>loaded = 0, total = 100\<rparr>, \<lparr>loaded = 30, total = 100\<rparr>]"
  using progress_ticks_from_zero[of "\<lparr>loaded = 10, total = 100\<rparr>" "[\<lparr>loaded = 30, total = 100\<rparr>]"]
  by (simp add: two_chunks_def)

text \<open>
  C8 as it is stated fails when the first event has already loaded bytes: after events
  at 10 and at 30 bytes of 100 the indicator advances by 30, not by 20.
\<close>

theorem progress_delta_counterexample:
  "run_progress (None, 0) two_chunks = [NewProgressBar 100, BarTick 30] \<and>
   spec_progress two_chunks = [NewProgressBar 100, BarTick 20] \<and>
   run_progress (None, 0) two_chunks \<noteq> spec_progress two_chunks"
  by (simp add: two_chunks_def on_progress_def)

text \<open>
  C9, as the code has it. In CI mode the reftype is "tag" or "branch", so
  \<open>sneakpeekUrl\<close> returns a URL for every base and project, with the encoded ref at
  its end; with \<open>CI_BUILD_TAG\<close> and \<open>CI_BUILD_REF_NAME\<close> both unset the reftype is
  "branch", the ref is undefined and the URL ends in \<open>/branches/undefined\<close>. When
  \<open>CI_BUILD_REF\<close> is set and the related project is given, the upload posts one
  request, to that URL, whose \<open>sha\<close> field is the value of the variable as it is.
\<close>

theorem ci_reftype_never_null:
  "truthy (process_env w ''CI'') \<longrightarrow>
     (reftype (fst (gitInfo w)) = JStr ''tag'' \<or> reftype (fst (gitInfo w)) = JStr ''branch'') \<and>
     sneakpeekUrl base project (fst (gitInfo w)) =
       Inr (join_element base @ ''/projects/'' @ encodeURIComponent project @ ''/'' @
            (if reftype (fst (gitInfo w)) = JStr ''branch'' then ''branches'' else ''tags'') @ ''/'' @
            encodeURIComponent (ref (fst (gitInfo w)))) \<and>
     (env w ''CI_BUILD_TAG'' = None \<and> env w ''CI_BUILD_REF_NAME'' = None \<longrightarrow>
        reftype (fst (gitInfo w)) = JStr ''branch'' \<and>
        ref (fst (gitInfo w)) = JUndefined \<and>
        sneakpeekUrl base project (fst (gitInfo w)) =
          Inr (join_element base @ ''/projects/'' @ encodeURIComponent project @ ''/branches/undefined'')) \<and>
     (\<forall>s. env w ''CI_BUILD_REF'' = Some s \<and>
          get_property options (JStr ''gitlabProject'') \<noteq> JUndefined \<and>
          get_property options (JStr ''gitlabProject'') \<noteq> JNull \<longrightarrow>
        network_calls (snd (upload w zipfile options)) =
          [HttpPost
            \<lparr>url = join_element (get_property options (JStr ''apiUrl'')) @ ''/projects/'' @
                    encodeURIComponent (get_property options (JStr ''project'')) @ ''/'' @
                    (if reftype (fst (gitInfo w)) = JStr ''branch'' then ''branches'' else ''tags'') @ ''/'' @
                    encodeURIComponent (ref (fst (gitInfo w))),
             content_type = ''form'',
             headers = (if truthy (get_property options (JStr ''apiKey'')) \<and>
                           get_property options (JStr ''apiKey'') \<noteq> JStr []
                        then [(''Authorization'', get_property options (JStr ''apiKey''))] else []),
             form_fields = [(''sha'', JStr s),
                            (''gitlab_project'', get_property options (JStr ''gitlabProject''))],
             attachments = [(''file'', zipfile)]\<rparr>])"
proof (intro impI)
  assume ci: "truthy (process_env w ''CI'')"
  then have g: "gitInfo w = (getCiInfo w, [])" by (rule gitInfo_ci)
  have r: "reftype (getCiInfo w) = JStr ''branch'' \<or> reftype (getCiInfo w) = JStr ''tag''"
    using getCiInfo_reftype[of w] by blast
  have s: "sneakpeekUrl b p (getCiInfo w) =
       Inr (join_element b @ ''/projects/'' @ encodeURIComponent p @ ''/'' @
            (if reftype (getCiInfo w) = JStr ''branch'' then ''branches'' else ''tags'') @ ''/'' @
            encodeURIComponent (ref (getCiInfo w)))" for b p
    by (rule sneakpeekUrl_resolved[OF r])
  have b: "env w ''CI_BUILD_TAG'' = None \<and> env w ''CI_BUILD_REF_NAME'' = None \<longrightarrow>
        reftype (getCiInfo w) = JStr ''branch'' \<and>
        ref (getCiInfo w) = JUndefined \<and>
        sneakpeekUrl base project (getCiInfo w) =
          Inr (join_element base @ ''/projects/'' @ encodeURIComponent project @ ''/branches/undefined'')"
    by (auto simp: getCiInfo_bare sneakpeekUrl_resolved encode_undefined)
  have p: "\<forall>s. env w ''CI_BUILD_REF'' = Some s \<and>
          get_property options (JStr ''gitlabProject'') \<noteq> JUndefined \<and>
          get_property options (JStr ''gitlabProject'') \<noteq> JNull \<longrightarrow>
        network_calls (snd (upload w zipfile options)) =
          [HttpPost
            \<lparr>url = join_element (get_property options (JStr ''apiUrl'')) @ ''/projects/'' @
                    encodeURIComponent (get_property options (JStr ''project'')) @ ''/'' @
                    (if reftype (getCiInfo w) = JStr ''branch'' then ''branches'' else ''tags'') @ ''/'' @
                    encodeURIComponent (ref (getCiInfo w)),
             content_type = ''form'',
             headers = (if truthy (get_property options (JStr ''apiKey'')) \<and>
                           get_property options (JStr ''apiKey'') \<noteq> JStr []
                        then [(''Authorization'', get_property options (JStr ''apiKey''))] else []),
             form_fields = [(''sha'', JStr s),
                            (''gitlab_project'', get_property options (JStr ''gitlabProject''))],
             attachments = [(''file'', zipfile)]\<rparr>]"
  proof (intro allI impI)
    fix v
    assume h: "env w ''CI_BUILD_REF'' = Some v \<and>
          get_property options (JStr ''gitlabProject'') \<noteq> JUndefined \<and>
          get_property options (JStr ''gitlabProject'') \<noteq> JNull"
    then have sh: "sha (getCiInfo w) = JStr v" by (simp add: getCiInfo_sha process_env_def)
    from h have g1: "get_property options (JStr ''gitlabProject'') \<noteq> JUndefined"
      and g2: "get_property options (JStr ''gitlabProject'') \<noteq> JNull" by simp_all
    have "JStr v \<noteq> JUndefined" "JStr v \<noteq> JNull" by simp_all
    note br = build_request_accepted[OF this g1 g2 sh]
    show "network_calls (snd (upload w zipfile options)) =
          [HttpPost
            \<lparr>url = join_element (get_property options (JStr ''apiUrl'')) @ ''/projects/'' @
                    encodeURIComponent (get_property options (JStr ''project'')) @ ''/'' @
                    (if reftype (getCiInfo w) = JStr ''branch'' then ''branches'' else ''tags'') @ ''/'' @
                    encodeURIComponent (ref (getCiInfo w)),
             content_type = ''form'',
             headers = (if truthy (get_property options (JStr ''apiKey'')) \<and>
                           get_property options (JStr ''apiKey'') \<noteq> JStr []
                        then [(''Authorization'', get_property options (JStr ''apiKey''))] else []),
             form_fields = [(''sha'', JStr v),
                            (''gitlab_project'', get_property options (JStr ''gitlabProject''))],
             attachments = [(''file'', zipfile)]\<rparr>]"
      by (rule network_calls_upload_sends[OF g s br])
  qed
  show "(reftype (fst (gitInfo w)) = JStr ''tag'' \<or> reftype (fst (gitInfo w)) = JStr ''branch'') \<and>
     sneakpeekUrl base project (fst (gitInfo w)) =
       Inr (join_element base @ ''/projects/'' @ encodeURIComponent project @ ''/'' @
            (if reftype (fst (gitInfo w)) = JStr ''branch'' then ''branches'' else ''tags'') @ ''/'' @
            encodeURIComponent (ref (fst (gitInfo w)))) \<and>
     (env w ''CI_BUILD_TAG'' = None \<and> env w ''CI_BUILD_REF_NAME'' = None \<longrightarrow>
        reftype (fst (gitInfo w)) = JStr ''branch'' \<and>
        ref (fst (gitInfo w)) = JUndefined \<and>
        sneakpeekUrl base project (fst (gitInfo w)) =
          Inr (join_element base @ ''/projects/'' @ encodeURIComponent project @ ''/branches/undefined'')) \<and>
     (\<forall>s. env w ''CI_BUILD_REF'' = Some s \<and>
          get_property options (JStr ''gitlabProject'') \<noteq> JUndefined \<and>
          get_property options (JStr ''gitlabProject'') \<noteq> JNull \<longrightarrow>
        network_calls (snd (upload w zipfile options)) =
          [HttpPost
            \<lparr>url = join_element (get_property options (JStr ''apiUrl'')) @ ''/projects/'' @
                    encodeURIComponent (get_property options (JStr ''project'')) @ ''/'' @
                    (if reftype (fst (gitInfo w)) = JStr ''branch'' then ''branches'' else ''tags'') @ ''/'' @
                    encodeURIComponent (ref (fst (gitInfo w))),
             content_type = ''form'',
             headers = (if truthy (get_property options (JStr ''apiKey'')) \<and>
                           get_property options (JStr ''apiKey'') \<noteq> JStr []
                        then [(''Authorization'', get_property options (JStr ''apiKey''))] else []),
             form_fields = [(''sha'', JStr s),
                            (''gitlab_project'', get_property options (JStr ''gitlabProject''))],
             attachments = [(''file'', zipfile)]\<rparr>])"
    unfolding g fst_conv using r s b p by blast
qed

theorem ci_reftype_never_null_witness:
  "reftype (fst (gitInfo ci_bare_world)) = JStr ''branch'' \<and>
   ref (fst (gitInfo ci_bare_world)) = JUndefined \<and>
   sneakpeekUrl (JStr ''https://api.example.com'') (JStr ''demo'') (fst (gitInfo ci_bare_world)) =
     Inr ''https://api.example.com/projects/demo/branches/undefined'' \<and>
   network_calls (snd (upload ci_branch_world ''/tmp/tmp-1'' demo_options)) =
     [HttpPost \<lparr>url = ''https://api.example.com/projects/demo/branches/main'', content_type = ''form'',
                headers = [],
                form_fields = [(''sha'', JStr ''abc123''), (''gitlab_project'', JStr ''group/demo'')],
                attachments = [(''file'', ''/tmp/tmp-1'')]\<rparr>]"
proof -
  have e: "truthy (process_env ci_bare_world ''CI'')"
    "env ci_bare_world ''CI_BUILD_TAG'' = None" "env ci_bare_world ''CI_BUILD_REF_NAME'' = None"
    by (simp_all add: ci_bare_world_def quiet_world_def process_env_def)
  have b: "truthy (process_env ci_branch_world ''CI'')"
    "env ci_branch_world ''CI_BUILD_REF'' = Some ''abc123''"
    "reftype (fst (gitInfo ci_branch_world)) = JStr ''branch''"
    "ref (fst (gitInfo ci_branch_world)) = JStr ''main''"
    by code_simp+
  have o: "get_property demo_options (JStr ''gitlabProject'') = JStr ''group/demo''"
    "get_property demo_options (JStr ''apiUrl'') = JStr ''https://api.example.com''"
    "get_property demo_options (JStr ''project'') = JStr ''demo''"
    "get_property demo_options (JStr ''apiKey'') = JNull"
    by (simp_all add: demo_options_def get_property_def)
  have d: "encodeURIComponent (JStr ''demo'') = ''demo''" "encodeURIComponent (JStr ''main'') = ''main''"
    by code_simp+
  show ?thesis
    using ci_reftype_never_null[of ci_bare_world "JStr ''https://api.example.com''" "JStr ''demo''" demo_options "''/tmp/tmp-1''"]
          ci_reftype_never_null[of ci_branch_world "JStr ''https://api.example.com''" "JStr ''demo''" demo_options "''/tmp/tmp-1''"]
    by (simp add: e b o d encode_undefined)
qed

text \<open>
  C9 as it is stated fails where \<open>CI_BUILD_REF\<close> is unset: the sha is undefined, and
  it is in no form field. The call that adds the field refuses it, \<open>upload\<close> throws
  and no request is made.
\<close>

theorem ci_undefined_sha_counterexample:
  "truthy (process_env ci_bare_world ''CI'') \<and>
   sha (fst (gitInfo ci_bare_world)) = JUndefined \<and>
   fst (upload ci_bare_world ''/tmp/tmp-1'' demo_options) = Inl field_value_empty \<and>
   network_calls (snd (upload ci_bare_world ''/tmp/tmp-1'' demo_options)) = []"
  by code_simp

text \<open>
  C10. \<open>uploadCommand\<close> leaves the \<open>DEFAULTS\<close> object as it was: every object
  that was in the store before the call is unchanged after it, and the merged options
  are written at an address that was not in use.
\<close>

theorem uploadCommand_preserves_DEFAULTS:
  "d < length h \<longrightarrow>
     deref (fst (snd (uploadCommand w h d argv))) d = deref h d \<and>
     take (length h) (fst (snd (uploadCommand w h d argv))) = h \<and>
     length h \<le> fst (make_options h d argv)"
  by (simp add: uploadCommand_heap make_options_take make_options_address make_options_frame
        make_options_length deref_def)

theorem uploadCommand_preserves_DEFAULTS_witness:
  "deref (fst (snd (uploadCommand ci_branch_world [DEFAULTS ci_branch_world] 0 demo_argv))) 0 =
     [(''path'', JNull), (''project'', JNull), (''gitlabProject'', JNull),
      (''apiUrl'', JStr ''https://api.peek.digitpaint.nl''), (''apiKey'', JNull)]"
proof -
  have "deref [DEFAULTS ci_branch_world] 0 =
     [(''path'', JNull), (''project'', JNull), (''gitlabProject'', JNull),
      (''apiUrl'', JStr ''https://api.peek.digitpaint.nl''), (''apiKey'', JNull)]"
    by code_simp
  then show ?thesis
    using uploadCommand_preserves_DEFAULTS[of 0 "[DEFAULTS ci_branch_world]" ci_branch_world demo_argv] by simp
qed

end
